theory Spec2Isabelle
  imports Main "HOL-Library.Sublist" "HOL-Library.Word"
begin

section \<open>Values, exceptions and responses\<close>

text \<open>
  The backend is an Express application (\<^verbatim>\<open>packages/backend/src/index.ts\<close>) with two
  POST handlers. Both read a JSON body, call collaborators that live in other modules
  (\<^verbatim>\<open>./otp\<close>, \<^verbatim>\<open>./hats\<close>, \<^verbatim>\<open>./account\<close>, \<^verbatim>\<open>./db\<close>) and answer with
  \<^verbatim>\<open>res.status(n).json(obj)\<close>.

  A value read from the JSON body is a JavaScript value; \<open>JUndefined\<close> stands for a property
  that is absent from the body. Of a number the handlers only ever ask whether it is zero.
\<close>

datatype jsval =
    JUndefined
  | JNull
  | JBool bool
  | JNum int
  | JStr string
  | JArr "jsval list"
  | JObj "(string \<times> jsval) list"

text \<open>JavaScript truthiness, the meaning of \<^verbatim>\<open>!v\<close> being false.\<close>

fun truthy :: "jsval \<Rightarrow> bool" where
  "truthy JUndefined = False"
| "truthy JNull = False"
| "truthy (JBool b) = b"
| "truthy (JNum n) = (n \<noteq> 0)"
| "truthy (JStr s) = (s \<noteq> [])"
| "truthy (JArr _) = True"
| "truthy (JObj _) = True"

text \<open>
  A thrown value. \<open>TypeError\<close> is what the runtime throws when a property that is not a
  function is called; \<open>Error\<close> is any other exception, with its text.
\<close>

datatype exn = TypeError string | Error string

text \<open>An awaited call either returns a value or throws.\<close>

datatype 'a outcome = Returned 'a | Thrown exn

text \<open>
  The object handed to \<^verbatim>\<open>res.json\<close>. Every response of the two handlers has a
  \<^verbatim>\<open>message\<close>; two of them add the caught exception under \<^verbatim>\<open>error\<close>, and the schema
  failure adds the list \<^verbatim>\<open>errors\<close>.
\<close>

record body =
  message :: string
  error :: "exn option"
  errors :: "string list option"

record response =
  res_status :: nat
  res_json :: body

definition msg :: "string \<Rightarrow> body" where
  "msg m = \<lparr>message = m, error = None, errors = None\<rparr>"

definition msg_error :: "string \<Rightarrow> exn \<Rightarrow> body" where
  "msg_error m e = \<lparr>message = m, error = Some e, errors = None\<rparr>"

definition msg_errors :: "string \<Rightarrow> string list \<Rightarrow> body" where
  "msg_errors m es = \<lparr>message = m, error = None, errors = Some es\<rparr>"

section \<open>Collaborators\<close>

text \<open>
  The result of \<^verbatim>\<open>VerifyOtpSchema.safeParse(req.body)\<close>: the issues of a failed parse, or
  the four fields of a well-formed request.
\<close>

record zod_issue =
  issue_path :: "string list"
  issue_message :: string

record verify_request =
  email :: string
  otp :: string
  address :: string
  identityCommitment :: string

datatype safe_parse = ParseFailure "zod_issue list" | ParseSuccess verify_request

text \<open>The receipt of \<^verbatim>\<open>hatsClient.mintHat\<close>; the handler reads only \<^verbatim>\<open>mintRes.status\<close>.\<close>

record mint_receipt =
  status :: jsval
  transactionHash :: string

text \<open>\<^verbatim>\<open>encodeAbiParameters(parseAbiParameters("uint"), [BigInt(HAT_ID)])\<close>: one 256-bit word.\<close>

datatype calldata = AbiUint "256 word"

type_synonym request = string
type_synonym db = nat
type_synonym stmt = nat

text \<open>
  The modules the handlers import are not part of the handlers: they are parameters. Each
  call acts on the world outside the handler (the OTP store, the mail transport, the chain,
  the database) and either returns or throws. \<open>HAT_ID\<close> and \<open>SEMAPHORE_ADDRESS\<close> are the
  constants of \<^verbatim>\<open>./constants\<close>.
\<close>

record 'w deps =
  HAT_ID :: "256 word"
  SEMAPHORE_ADDRESS :: string
  safeParse :: "(string \<rightharpoonup> jsval) \<Rightarrow> safe_parse"
  sendOtp :: "string \<Rightarrow> 'w \<Rightarrow> unit outcome \<times> 'w"
  verifyOtp :: "string \<Rightarrow> string \<Rightarrow> 'w \<Rightarrow> bool outcome \<times> 'w"
  mintHat :: "256 word \<Rightarrow> string \<Rightarrow> 'w \<Rightarrow> mint_receipt outcome \<times> 'w"
  simulateContract :: "string \<Rightarrow> string \<Rightarrow> string \<Rightarrow> calldata \<Rightarrow> 'w \<Rightarrow> request outcome \<times> 'w"
  writeContract :: "request \<Rightarrow> 'w \<Rightarrow> string outcome \<times> 'w"
  getDb :: "'w \<Rightarrow> db outcome \<times> 'w"
  prepare :: "db \<Rightarrow> string \<Rightarrow> 'w \<Rightarrow> stmt outcome \<times> 'w"
  run :: "stmt \<Rightarrow> string \<Rightarrow> string \<Rightarrow> 'w \<Rightarrow> unit outcome \<times> 'w"
  finalize :: "stmt \<Rightarrow> 'w \<Rightarrow> unit outcome \<times> 'w"
  close :: "db \<Rightarrow> 'w \<Rightarrow> unit outcome \<times> 'w"

text \<open>Every collaborator call a handler makes is logged, in order, with its arguments.\<close>

datatype event =
    CallSendOtp string
  | CallVerifyOtp string string
  | CallMintHat "256 word" string
  | CallSimulateContract string string string calldata
  | CallWriteContract request
  | CallGetDb
  | CallPrepare db string
  | CallRun stmt string string
  | CallFinalize stmt
  | CallClose db

text \<open>
  What one invocation of a handler leaves behind: the response it sent (if any), the
  exception its promise was rejected with (if any: an exception no \<^verbatim>\<open>catch\<close> of the
  handler covers), the world after its calls, and the log of the calls.
\<close>

record 'w result =
  response :: "response option"
  rejected :: "exn option"
  world :: 'w
  trace :: "event list"

definition respond :: "nat \<Rightarrow> body \<Rightarrow> 'w \<Rightarrow> event list \<Rightarrow> 'w result" where
  "respond n b w t =
     \<lparr>response = Some \<lparr>res_status = n, res_json = b\<rparr>, rejected = None, world = w, trace = t\<rparr>"

definition reject :: "exn \<Rightarrow> 'w \<Rightarrow> event list \<Rightarrow> 'w result" where
  "reject e w t = \<lparr>response = None, rejected = Some e, world = w, trace = t\<rparr>"

section \<open>POST /send-otp\<close>

text \<open>\<^verbatim>\<open>const { email } = req.body\<close>\<close>

definition field :: "(string \<rightharpoonup> jsval) \<Rightarrow> string \<Rightarrow> jsval" where
  "field b k = (case b k of None \<Rightarrow> JUndefined | Some v \<Rightarrow> v)"

text \<open>
  \<^verbatim>\<open>email.endsWith('@pse.dev')\<close> is the suffix test on a string; any other truthy JSON
  value has no function \<^verbatim>\<open>endsWith\<close>, the call throws a TypeError, and since no
  \<^verbatim>\<open>try\<close> surrounds it the handler's promise is rejected with it.
\<close>

definition send_otp_handler :: "'w deps \<Rightarrow> (string \<rightharpoonup> jsval) \<Rightarrow> 'w \<Rightarrow> 'w result" where
  "send_otp_handler d req_body w =
     (let email = field req_body ''email'' in
      if \<not> truthy email then respond 400 (msg ''Email is required'') w []
      else
        (case email of
           JStr addr \<Rightarrow>
             if \<not> suffix ''@pse.dev'' addr
             then respond 400 (msg ''Invalid email domain'') w []
             else
               (case sendOtp d addr w of
                  (Returned _, w') \<Rightarrow>
                    respond 200 (msg ''OTP sent successfully'') w' [CallSendOtp addr]
                | (Thrown e, w') \<Rightarrow>
                    respond 500 (msg_error ''Failed to send OTP'' e) w' [CallSendOtp addr])
         | _ \<Rightarrow> reject (TypeError ''email.endsWith is not a function'') w []))"

section \<open>POST /verify-otp\<close>

text \<open>\<^verbatim>\<open>issue.path.join(".")\<close>\<close>

fun join :: "string \<Rightarrow> string list \<Rightarrow> string" where
  "join sep [] = []"
| "join sep [x] = x"
| "join sep (x # y # ys) = x @ sep @ join sep (y # ys)"

definition format_issue :: "zod_issue \<Rightarrow> string" where
  "format_issue i = join ''.'' (issue_path i) @ '' - '' @ issue_message i"

text \<open>
  Lines 111 to 124: the connection is opened outside the \<^verbatim>\<open>try\<close>; \<^verbatim>\<open>prepare\<close>,
  \<^verbatim>\<open>run\<close> and \<^verbatim>\<open>finalize\<close> are inside it, and any exception of theirs is answered by
  the one \<^verbatim>\<open>catch\<close>; \<^verbatim>\<open>finally\<close> closes the connection after the response was sent.
\<close>

definition insert_sql :: string where
  "insert_sql = ''INSERT INTO accounts (email, address) VALUES (?, ?)''"

definition store_try :: "'w deps \<Rightarrow> db \<Rightarrow> verify_request \<Rightarrow> 'w \<Rightarrow> response \<times> 'w \<times> event list" where
  "store_try d conn rq w =
     (let failed = (\<lambda>e. \<lparr>res_status = 500, res_json = msg_error ''Could not store account'' e\<rparr>) in
      case prepare d conn insert_sql w of
        (Thrown e, w1) \<Rightarrow> (failed e, w1, [CallPrepare conn insert_sql])
      | (Returned st, w1) \<Rightarrow>
          (case run d st (email rq) (address rq) w1 of
             (Thrown e, w2) \<Rightarrow>
               (failed e, w2, [CallPrepare conn insert_sql, CallRun st (email rq) (address rq)])
           | (Returned _, w2) \<Rightarrow>
               (case finalize d st w2 of
                  (Thrown e, w3) \<Rightarrow>
                    (failed e, w3,
                     [CallPrepare conn insert_sql, CallRun st (email rq) (address rq),
                      CallFinalize st])
                | (Returned _, w3) \<Rightarrow>
                    (\<lparr>res_status = 200, res_json = msg ''OTP verified successfully''\<rparr>, w3,
                     [CallPrepare conn insert_sql, CallRun st (email rq) (address rq),
                      CallFinalize st]))))"

definition store_account :: "'w deps \<Rightarrow> verify_request \<Rightarrow> 'w \<Rightarrow> event list \<Rightarrow> 'w result" where
  "store_account d rq w t =
     (case getDb d w of
        (Thrown e, w1) \<Rightarrow> reject e w1 (t @ [CallGetDb])
      | (Returned conn, w1) \<Rightarrow>
          (case store_try d conn rq w1 of
             (r, w2, t2) \<Rightarrow>
               (case close d conn w2 of
                  (Thrown e, w3) \<Rightarrow>
                    \<lparr>response = Some r, rejected = Some e, world = w3,
                     trace = t @ [CallGetDb] @ t2 @ [CallClose conn]\<rparr>
                | (Returned _, w3) \<Rightarrow>
                    \<lparr>response = Some r, rejected = None, world = w3,
                     trace = t @ [CallGetDb] @ t2 @ [CallClose conn]\<rparr>)))"

text \<open>Lines 94 to 109: the simulation, then the write of the prepared request.\<close>

definition add_member :: "'w deps \<Rightarrow> verify_request \<Rightarrow> 'w \<Rightarrow> event list \<Rightarrow> 'w result" where
  "add_member d rq w t =
     (let data = AbiUint (HAT_ID d);
          sim = CallSimulateContract (SEMAPHORE_ADDRESS d) ''gateAndAddMember''
                  (identityCommitment rq) data in
      case simulateContract d (SEMAPHORE_ADDRESS d) ''gateAndAddMember''
             (identityCommitment rq) data w of
        (Thrown e, w1) \<Rightarrow>
          respond 500 (msg ''Failed to add account to Semaphore group'') w1 (t @ [sim])
      | (Returned request, w1) \<Rightarrow>
          (case writeContract d request w1 of
             (Thrown e, w2) \<Rightarrow>
               respond 500 (msg ''Failed to add account to Semaphore group'') w2
                 (t @ [sim, CallWriteContract request])
           | (Returned _, w2) \<Rightarrow>
               store_account d rq w2 (t @ [sim, CallWriteContract request])))"

text \<open>
  Lines 58 to 92: the schema, the OTP check (outside every \<^verbatim>\<open>try\<close>), and the mint with
  its explicit test of \<^verbatim>\<open>mintRes.status\<close>, whose \<^verbatim>\<open>throw\<close> lands in the same
  \<^verbatim>\<open>catch\<close> as an exception of \<^verbatim>\<open>mintHat\<close>.
\<close>

definition verify_otp_handler :: "'w deps \<Rightarrow> (string \<rightharpoonup> jsval) \<Rightarrow> 'w \<Rightarrow> 'w result" where
  "verify_otp_handler d req_body w =
     (case safeParse d req_body of
        ParseFailure issues \<Rightarrow>
          respond 400 (msg_errors ''Validation error(s)'' (map format_issue issues)) w []
      | ParseSuccess rq \<Rightarrow>
          (case verifyOtp d (email rq) (otp rq) w of
             (Thrown e, w1) \<Rightarrow> reject e w1 [CallVerifyOtp (email rq) (otp rq)]
           | (Returned isValid, w1) \<Rightarrow>
               if \<not> isValid
               then respond 400 (msg ''Invalid or expired OTP'') w1
                      [CallVerifyOtp (email rq) (otp rq)]
               else
                 (let t = [CallVerifyOtp (email rq) (otp rq), CallMintHat (HAT_ID d) (address rq)] in
                  case mintHat d (HAT_ID d) (address rq) w1 of
                    (Thrown e, w2) \<Rightarrow> respond 500 (msg ''Failed to mint hat'') w2 t
                  | (Returned mintRes, w2) \<Rightarrow>
                      if \<not> truthy (status mintRes)
                      then respond 500 (msg ''Failed to mint hat'') w2 t
                      else add_member d rq w2 t)))"

section \<open>Which collaborators a run reached\<close>

fun is_issuer_call :: "event \<Rightarrow> bool" where
  "is_issuer_call (CallMintHat _ _) = True"
| "is_issuer_call _ = False"

fun is_admission_call :: "event \<Rightarrow> bool" where
  "is_admission_call (CallSimulateContract _ _ _ _) = True"
| "is_admission_call (CallWriteContract _) = True"
| "is_admission_call _ = False"

fun is_ledger_call :: "event \<Rightarrow> bool" where
  "is_ledger_call CallGetDb = True"
| "is_ledger_call (CallPrepare _ _) = True"
| "is_ledger_call (CallRun _ _ _) = True"
| "is_ledger_call (CallFinalize _) = True"
| "is_ledger_call (CallClose _) = True"
| "is_ledger_call _ = False"

section \<open>The OTP store\<close>

text \<open>
  Modelled from the spec: the module \<^verbatim>\<open>./otp\<close> (\<open>sendOtp\<close>, \<open>verifyOtp\<close>) is not among
  the sources, so the store is written from the specification's sections 3 and 4.1. An
  \<open>OtpRecord\<close> is \<open>{email, code, issuedAt, expiresAt, consumed}\<close>; the store keeps at most
  one record per email. The time of a call and the time to live are parameters, and so is
  the code that \<open>issue\<close> generates.
\<close>

record otp_record =
  otp_email :: string
  otp_code :: string
  issuedAt :: nat
  expiresAt :: nat
  consumed :: bool

type_synonym otp_store = "string \<rightharpoonup> otp_record"

text \<open>
  Modelled from the spec: \<open>issue(email)\<close> "computes expiresAt = now + TTL,
  stores/overwrites the record for email".
\<close>

definition issue :: "nat \<Rightarrow> otp_store \<Rightarrow> nat \<Rightarrow> string \<Rightarrow> string \<Rightarrow> otp_store" where
  "issue ttl s now e c =
     s(e \<mapsto> \<lparr>otp_email = e, otp_code = c, issuedAt = now, expiresAt = now + ttl,
              consumed = False\<rparr>)"

text \<open>
  Modelled from the spec: \<open>verify(email, code)\<close> "returns false when: no record exists
  for email, stored code \<noteq> submitted code, now > expiresAt, or record already consumed. On
  success, atomically marks the record consumed and returns true."
\<close>

definition verify :: "otp_store \<Rightarrow> nat \<Rightarrow> string \<Rightarrow> string \<Rightarrow> bool \<times> otp_store" where
  "verify s now e c =
     (case s e of
        None \<Rightarrow> (False, s)
      | Some r \<Rightarrow>
          if otp_code r \<noteq> c then (False, s)
          else if now > expiresAt r then (False, s)
          else if consumed r then (False, s)
          else (True, s(e \<mapsto> r\<lparr>consumed := True\<rparr>)))"

text \<open>
  A sequence of \<open>verify\<close> calls, each with its time, email and code, run one after the
  other on the store.
\<close>

fun verify_all :: "otp_store \<Rightarrow> (nat \<times> string \<times> string) list \<Rightarrow> otp_store" where
  "verify_all s [] = s"
| "verify_all s ((now, e, c) # cs) = verify_all (snd (verify s now e c)) cs"

section \<open>Scripted collaborators\<close>

text \<open>
  Test doubles for concrete runs: every collaborator answers with the outcome the script
  gives it, and the world counts the calls made.
\<close>

record script =
  on_safeParse :: safe_parse
  on_sendOtp :: "unit outcome"
  on_verifyOtp :: "bool outcome"
  on_mintHat :: "mint_receipt outcome"
  on_simulateContract :: "request outcome"
  on_writeContract :: "string outcome"
  on_getDb :: "db outcome"
  on_prepare :: "stmt outcome"
  on_run :: "unit outcome"
  on_finalize :: "unit outcome"
  on_close :: "unit outcome"

definition stub :: "script \<Rightarrow> nat deps" where
  "stub s =
     \<lparr>HAT_ID = 7, SEMAPHORE_ADDRESS = ''0x5e'',
      safeParse = (\<lambda>_. on_safeParse s),
      sendOtp = (\<lambda>_ n. (on_sendOtp s, Suc n)),
      verifyOtp = (\<lambda>_ _ n. (on_verifyOtp s, Suc n)),
      mintHat = (\<lambda>_ _ n. (on_mintHat s, Suc n)),
      simulateContract = (\<lambda>_ _ _ _ n. (on_simulateContract s, Suc n)),
      writeContract = (\<lambda>_ n. (on_writeContract s, Suc n)),
      getDb = (\<lambda>n. (on_getDb s, Suc n)),
      prepare = (\<lambda>_ _ n. (on_prepare s, Suc n)),
      run = (\<lambda>_ _ _ n. (on_run s, Suc n)),
      finalize = (\<lambda>_ n. (on_finalize s, Suc n)),
      close = (\<lambda>_ n. (on_close s, Suc n))\<rparr>"

definition alice :: verify_request where
  "alice = \<lparr>email = ''alice@pse.dev'', otp = ''4821'', address = ''0xABC'',
            identityCommitment = ''0x123''\<rparr>"

definition all_ok :: script where
  "all_ok =
     \<lparr>on_safeParse = ParseSuccess alice,
      on_sendOtp = Returned (),
      on_verifyOtp = Returned True,
      on_mintHat = Returned \<lparr>status = JBool True, transactionHash = ''0xa1''\<rparr>,
      on_simulateContract = Returned ''gateAndAddMember(0x123, 7)'',
      on_writeContract = Returned ''0xb2'',
      on_getDb = Returned 0,
      on_prepare = Returned 0,
      on_run = Returned (),
      on_finalize = Returned (),
      on_close = Returned ()\<rparr>"

text \<open>
  \<open>rethrow f d\<close> is \<open>d\<close> with every exception a collaborator throws replaced by its image
  under \<open>f\<close>; what the collaborators return, and what they do to the world, is unchanged.
\<close>

fun map_thrown :: "(exn \<Rightarrow> exn) \<Rightarrow> 'a outcome \<times> 'w \<Rightarrow> 'a outcome \<times> 'w" where
  "map_thrown f (Thrown e, w) = (Thrown (f e), w)"
| "map_thrown f (Returned x, w) = (Returned x, w)"

definition rethrow :: "(exn \<Rightarrow> exn) \<Rightarrow> 'w deps \<Rightarrow> 'w deps" where
  "rethrow f d =
     d\<lparr>sendOtp := (\<lambda>a w. map_thrown f (sendOtp d a w)),
       verifyOtp := (\<lambda>a b w. map_thrown f (verifyOtp d a b w)),
       mintHat := (\<lambda>a b w. map_thrown f (mintHat d a b w)),
       simulateContract := (\<lambda>a b c x w. map_thrown f (simulateContract d a b c x w)),
       writeContract := (\<lambda>a w. map_thrown f (writeContract d a w)),
       getDb := (\<lambda>w. map_thrown f (getDb d w)),
       prepare := (\<lambda>a b w. map_thrown f (prepare d a b w)),
       run := (\<lambda>a b c w. map_thrown f (run d a b c w)),
       finalize := (\<lambda>a w. map_thrown f (finalize d a w)),
       close := (\<lambda>a w. map_thrown f (close d a w))\<rparr>"

text \<open>
  \<open>map_error f\<close> replaces the exception a response carries under \<^verbatim>\<open>error\<close>, if it
  carries one, by its image under \<open>f\<close>, and changes nothing else.
\<close>

definition map_error :: "(exn \<Rightarrow> exn) \<Rightarrow> response \<Rightarrow> response" where
  "map_error f r = r\<lparr>res_json := (res_json r)\<lparr>error := map_option f (error (res_json r))\<rparr>\<rparr>"

text \<open>
  The receipt of a mint whose transaction was mined and reverted: the status is the string
  \<^verbatim>\<open>'reverted'\<close>, as the chain client reports it.
\<close>

definition reverted :: mint_receipt where
  "reverted = \<lparr>status = JStr ''reverted'', transactionHash = ''0xa1''\<rparr>"



section \<open>Auxiliary facts\<close>

lemma store_account_trace:
  "\<exists>t'. trace (store_account d rq w t) = t @ t'"
  by (simp add: store_account_def reject_def split: prod.splits outcome.splits)

lemma store_account_trace4:
  "\<exists>t'. trace (store_account d rq w [a, b, c, e]) = a # b # c # e # t'"
  using store_account_trace [of d rq w "[a, b, c, e]"] by simp

lemma ledger_call_reached:
  assumes "ev \<in> set (trace (verify_otp_handler d req_body w))" and "is_ledger_call ev"
  shows "\<exists>rq w1 mintRes w2 request w3 tx w4 t.
             safeParse d req_body = ParseSuccess rq
           \<and> verifyOtp d (email rq) (otp rq) w = (Returned True, w1)
           \<and> mintHat d (HAT_ID d) (address rq) w1 = (Returned mintRes, w2)
           \<and> truthy (status mintRes)
           \<and> simulateContract d (SEMAPHORE_ADDRESS d) ''gateAndAddMember''
               (identityCommitment rq) (AbiUint (HAT_ID d)) w2 = (Returned request, w3)
           \<and> writeContract d request w3 = (Returned tx, w4)
           \<and> trace (verify_otp_handler d req_body w) =
               [CallVerifyOtp (email rq) (otp rq), CallMintHat (HAT_ID d) (address rq),
                CallSimulateContract (SEMAPHORE_ADDRESS d) ''gateAndAddMember''
                  (identityCommitment rq) (AbiUint (HAT_ID d)),
                CallWriteContract request] @ t"
  using assms
  by (auto simp: verify_otp_handler_def add_member_def respond_def reject_def Let_def
      split: safe_parse.splits prod.splits outcome.splits if_splits
      intro: store_account_trace4)

lemma admission_failure:
  assumes "safeParse d req_body = ParseSuccess rq"
    and "verifyOtp d (email rq) (otp rq) w = (Returned True, w1)"
    and "mintHat d (HAT_ID d) (address rq) w1 = (Returned mintRes, w2)"
    and "truthy (status mintRes)"
    and "simulateContract d (SEMAPHORE_ADDRESS d) ''gateAndAddMember''
           (identityCommitment rq) (AbiUint (HAT_ID d)) w2 = (sim, w3)"
    and "(\<exists>e. sim = Thrown e) \<or>
         (\<exists>request e w4. sim = Returned request \<and> writeContract d request w3 = (Thrown e, w4))"
  shows "response (verify_otp_handler d req_body w) =
           Some \<lparr>res_status = 500, res_json = msg ''Failed to add account to Semaphore group''\<rparr>
         \<and> rejected (verify_otp_handler d req_body w) = None
         \<and> filter is_ledger_call (trace (verify_otp_handler d req_body w)) = []"
  using assms
  by (auto simp: verify_otp_handler_def add_member_def respond_def reject_def Let_def
      split: safe_parse.splits prod.splits outcome.splits if_splits)

lemma falsy_mint_status_stops:
  assumes "safeParse d req_body = ParseSuccess rq"
    and "verifyOtp d (email rq) (otp rq) w = (Returned True, w1)"
    and "mintHat d (HAT_ID d) (address rq) w1 = (Returned mintRes, w2)"
    and "\<not> truthy (status mintRes)"
  shows "verify_otp_handler d req_body w =
           \<lparr>response = Some \<lparr>res_status = 500, res_json = msg ''Failed to mint hat''\<rparr>,
            rejected = None, world = w2,
            trace = [CallVerifyOtp (email rq) (otp rq), CallMintHat (HAT_ID d) (address rq)]\<rparr>"
  using assms by (simp add: verify_otp_handler_def respond_def)

lemma rethrow_simps:
  "HAT_ID (rethrow f d) = HAT_ID d"
  "SEMAPHORE_ADDRESS (rethrow f d) = SEMAPHORE_ADDRESS d"
  "safeParse (rethrow f d) = safeParse d"
  "sendOtp (rethrow f d) a w = map_thrown f (sendOtp d a w)"
  "verifyOtp (rethrow f d) a b w = map_thrown f (verifyOtp d a b w)"
  "mintHat (rethrow f d) h a w = map_thrown f (mintHat d h a w)"
  "simulateContract (rethrow f d) a b c x w = map_thrown f (simulateContract d a b c x w)"
  "writeContract (rethrow f d) q w = map_thrown f (writeContract d q w)"
  "getDb (rethrow f d) w = map_thrown f (getDb d w)"
  "prepare (rethrow f d) n a w = map_thrown f (prepare d n a w)"
  "run (rethrow f d) n a b w = map_thrown f (run d n a b w)"
  "finalize (rethrow f d) n w = map_thrown f (finalize d n w)"
  "close (rethrow f d) n w = map_thrown f (close d n w)"
  by (simp_all add: rethrow_def)

lemma map_thrown_cases:
  "map_thrown f p =
     (case p of (Thrown e, w) \<Rightarrow> (Thrown (f e), w) | (Returned x, w) \<Rightarrow> (Returned x, w))"
  by (cases p; cases "fst p") auto

lemma store_try_rethrow:
  "store_try (rethrow f d) conn rq w =
     (case store_try d conn rq w of (r, w', t) \<Rightarrow> (map_error f r, w', t))"
  by (auto simp add: store_try_def rethrow_simps map_thrown_cases map_error_def msg_def
        msg_error_def Let_def
      split: prod.splits outcome.splits)

lemma store_account_rethrow:
  "response (store_account (rethrow f d) rq w t) =
     map_option (map_error f) (response (store_account d rq w t))"
  by (auto simp add: store_account_def store_try_rethrow rethrow_simps map_thrown_cases reject_def
      split: prod.splits outcome.splits)

lemma add_member_rethrow:
  "response (add_member (rethrow f d) rq w t) =
     map_option (map_error f) (response (add_member d rq w t))"
  by (auto simp add: add_member_def store_account_rethrow rethrow_simps map_thrown_cases
        respond_def map_error_def msg_def Let_def
      split: prod.splits outcome.splits)

lemma verify_otp_handler_rethrow:
  "response (verify_otp_handler (rethrow f d) b w) =
     map_option (map_error f) (response (verify_otp_handler d b w))"
  by (auto simp add: verify_otp_handler_def add_member_rethrow rethrow_simps map_thrown_cases
        respond_def reject_def map_error_def msg_def msg_errors_def Let_def
      split: safe_parse.splits prod.splits outcome.splits)

lemma send_otp_handler_rethrow:
  "response (send_otp_handler (rethrow f d) b w) =
     map_option (map_error f) (response (send_otp_handler d b w))"
  by (auto simp add: send_otp_handler_def rethrow_simps map_thrown_cases respond_def
        reject_def map_error_def msg_def msg_error_def Let_def
      split: jsval.splits prod.splits outcome.splits)

lemma store_account_error:
  "response (store_account d rq w t) = Some r \<Longrightarrow> error (res_json r) \<noteq> None \<Longrightarrow>
     res_status r = 500 \<and> message (res_json r) = ''Could not store account''"
  by (auto simp: store_account_def store_try_def reject_def msg_def msg_error_def Let_def
      split: prod.splits outcome.splits)

lemma verify_otp_handler_error:
  "response (verify_otp_handler d b w) = Some r \<Longrightarrow> error (res_json r) \<noteq> None \<Longrightarrow>
     res_status r = 500 \<and> message (res_json r) = ''Could not store account''"
  by (auto simp: verify_otp_handler_def add_member_def respond_def reject_def msg_def
        msg_errors_def Let_def
      split: safe_parse.splits prod.splits outcome.splits if_splits
      dest: store_account_error)

lemma send_otp_handler_error:
  "response (send_otp_handler d b w) = Some r \<Longrightarrow> error (res_json r) \<noteq> None \<Longrightarrow>
     res_status r = 500 \<and> message (res_json r) = ''Failed to send OTP''"
  by (auto simp: send_otp_handler_def respond_def reject_def msg_def msg_error_def Let_def
      split: jsval.splits prod.splits outcome.splits if_splits)

lemma verify_keeps_consumed:
  "s E = Some r \<Longrightarrow> consumed r \<Longrightarrow> \<exists>r'. snd (verify s now e c) E = Some r' \<and> consumed r'"
  by (auto simp: verify_def split: option.splits)

lemma verify_all_keeps_consumed:
  "s E = Some r \<Longrightarrow> consumed r \<Longrightarrow> \<exists>r'. verify_all s cs E = Some r' \<and> consumed r'"
proof (induction s cs arbitrary: r rule: verify_all.induct)
  case (1 s)
  then show ?case by simp
next
  case (2 s now e c cs)
  from verify_keeps_consumed [of s E r now e c] "2.prems"
  obtain r1 where "snd (verify s now e c) E = Some r1" "consumed r1" by blast
  then show ?case using "2.IH" by simp
qed

lemma verify_true_consumes:
  "verify s now e c = (True, s') \<Longrightarrow> \<exists>r. s' e = Some r \<and> consumed r"
  by (auto simp: verify_def split: option.splits if_splits)

lemma verify_consumed_false:
  "s e = Some r \<Longrightarrow> consumed r \<Longrightarrow> fst (verify s now e c) = False"
  by (simp add: verify_def)

section \<open>The registration handler\<close>

text \<open>
  C1. The handler means to stop when the mint failed (line 86: "we want to throw an error
  if the minting failed") and tests \<^verbatim>\<open>!mintRes.status\<close>. The test is one of truthiness,
  and the status of a reverted mint is the non-empty string \<^verbatim>\<open>'reverted'\<close>, which is
  truthy: on such a receipt, returned without any exception, the handler does not answer
  500 "Failed to mint hat" but goes on, calls the group admission client, writes the
  ledger row and answers 200.
\<close>

theorem reverted_mint_is_not_stopped:
  "truthy (status reverted)
   \<and> response (verify_otp_handler (stub (all_ok\<lparr>on_mintHat := Returned reverted\<rparr>)) Map.empty 0) =
       Some \<lparr>res_status = 200, res_json = msg ''OTP verified successfully''\<rparr>
   \<and> response (verify_otp_handler (stub (all_ok\<lparr>on_mintHat := Returned reverted\<rparr>)) Map.empty 0) \<noteq>
       Some \<lparr>res_status = 500, res_json = msg ''Failed to mint hat''\<rparr>
   \<and> filter is_admission_call
         (trace (verify_otp_handler (stub (all_ok\<lparr>on_mintHat := Returned reverted\<rparr>)) Map.empty 0)) =
       [CallSimulateContract ''0x5e'' ''gateAndAddMember'' ''0x123'' (AbiUint 7),
        CallWriteContract ''gateAndAddMember(0x123, 7)'']"
  by (simp add: verify_otp_handler_def add_member_def store_account_def store_try_def
      stub_def all_ok_def alice_def reverted_def msg_def)

text \<open>
  C2. When the OTP check returns false the handler answers 400 "Invalid or expired OTP"
  and stops: the only collaborator it has called is \<open>verifyOtp\<close>, so the credential issuer,
  the group admission client and the registration ledger are never reached, and the world is
  the one \<open>verifyOtp\<close> left.
\<close>

theorem otp_rejected_stops:
  assumes "safeParse d req_body = ParseSuccess rq"
    and "verifyOtp d (email rq) (otp rq) w = (Returned False, w1)"
  shows "verify_otp_handler d req_body w =
           \<lparr>response = Some \<lparr>res_status = 400, res_json = msg ''Invalid or expired OTP''\<rparr>,
            rejected = None, world = w1, trace = [CallVerifyOtp (email rq) (otp rq)]\<rparr>
         \<and> filter is_issuer_call (trace (verify_otp_handler d req_body w)) = []
         \<and> filter is_admission_call (trace (verify_otp_handler d req_body w)) = []
         \<and> filter is_ledger_call (trace (verify_otp_handler d req_body w)) = []"
  using assms by (simp add: verify_otp_handler_def respond_def)

theorem otp_rejected_stops_witness:
  "verify_otp_handler (stub (all_ok\<lparr>on_verifyOtp := Returned False\<rparr>)) Map.empty 0 =
     \<lparr>response = Some \<lparr>res_status = 400, res_json = msg ''Invalid or expired OTP''\<rparr>,
      rejected = None, world = 1, trace = [CallVerifyOtp ''alice@pse.dev'' ''4821'']\<rparr>"
  using otp_rejected_stops
    [of "stub (all_ok\<lparr>on_verifyOtp := Returned False\<rparr>)" Map.empty alice 0 1]
  by (simp add: stub_def all_ok_def alice_def)

text \<open>
  C3. A ledger row is to be written only after the mint and the group admission have both
  succeeded. The group admission half holds (a throw at the simulation or at the write is
  answered with 500 and no database call, see \<open>admission_failure\<close>), the mint half does
  not: on a receipt with the status \<^verbatim>\<open>'reverted'\<close> the handler still runs the INSERT for
  the email and the address, after a mint that did not succeed.
\<close>

theorem ledger_row_written_after_reverted_mint:
  "trace (verify_otp_handler (stub (all_ok\<lparr>on_mintHat := Returned reverted\<rparr>)) Map.empty 0) =
     [CallVerifyOtp ''alice@pse.dev'' ''4821'', CallMintHat 7 ''0xABC'',
      CallSimulateContract ''0x5e'' ''gateAndAddMember'' ''0x123'' (AbiUint 7),
      CallWriteContract ''gateAndAddMember(0x123, 7)'', CallGetDb, CallPrepare 0 insert_sql,
      CallRun 0 ''alice@pse.dev'' ''0xABC'', CallFinalize 0, CallClose 0]
   \<and> CallRun 0 ''alice@pse.dev'' ''0xABC'' \<in>
       set (trace (verify_otp_handler (stub (all_ok\<lparr>on_mintHat := Returned reverted\<rparr>))
              Map.empty 0))
   \<and> mintHat (stub (all_ok\<lparr>on_mintHat := Returned reverted\<rparr>)) 7 ''0xABC'' 1 =
       (Returned \<lparr>status = JStr ''reverted'', transactionHash = ''0xa1''\<rparr>, 2)"
  by (simp add: verify_otp_handler_def add_member_def store_account_def store_try_def
      stub_def all_ok_def alice_def reverted_def)

text \<open>
  C7 (as the code has it). When \<open>verifyOtp\<close> throws (the OTP store being unavailable), no
  \<^verbatim>\<open>catch\<close> of the handler covers the call: the exception propagates out of the handler
  as it is, the handler sends no response and calls no further collaborator. A false
  result, by contrast, is answered with 400 "Invalid or expired OTP" and no exception.
\<close>

theorem otp_store_error_propagates:
  assumes "safeParse d req_body = ParseSuccess rq"
    and "verifyOtp d (email rq) (otp rq) w = (Thrown e, w1)"
  shows "verify_otp_handler d req_body w =
           \<lparr>response = None, rejected = Some e, world = w1,
            trace = [CallVerifyOtp (email rq) (otp rq)]\<rparr>
         \<and> (\<forall>d' req_body' rq' w' w1'.
               safeParse d' req_body' = ParseSuccess rq'
             \<and> verifyOtp d' (email rq') (otp rq') w' = (Returned False, w1')
             \<longrightarrow> response (verify_otp_handler d' req_body' w') =
                   Some \<lparr>res_status = 400, res_json = msg ''Invalid or expired OTP''\<rparr>
               \<and> rejected (verify_otp_handler d' req_body' w') = None
               \<and> response (verify_otp_handler d' req_body' w') \<noteq>
                   response (verify_otp_handler d req_body w)
               \<and> rejected (verify_otp_handler d' req_body' w') \<noteq>
                   rejected (verify_otp_handler d req_body w))"
  using assms by (simp add: verify_otp_handler_def respond_def reject_def)

theorem otp_store_error_propagates_witness:
  "verify_otp_handler
     (stub (all_ok\<lparr>on_verifyOtp := Thrown (Error ''SQLITE_CANTOPEN: unable to open database file'')\<rparr>))
     Map.empty 0 =
     \<lparr>response = None,
      rejected = Some (Error ''SQLITE_CANTOPEN: unable to open database file''),
      world = 1, trace = [CallVerifyOtp ''alice@pse.dev'' ''4821'']\<rparr>"
proof -
  let ?e = "Error ''SQLITE_CANTOPEN: unable to open database file''"
  let ?d = "stub (all_ok\<lparr>on_verifyOtp := Thrown ?e\<rparr>)"
  have h1: "safeParse ?d Map.empty = ParseSuccess alice"
    by (simp add: stub_def all_ok_def)
  have h2: "verifyOtp ?d (email alice) (otp alice) 0 = (Thrown ?e, 1)"
    by (simp add: stub_def all_ok_def)
  from otp_store_error_propagates [OF h1 h2, THEN conjunct1] show ?thesis
    by (simp add: alice_def)
qed

text \<open>
  C7, the claim as stated fails: when the OTP store throws, the handler surfaces no
  outcome to the caller at all, and what it leaves is what an unavailable database leaves
  after both on-chain steps: no response, and the exception, unhandled.
\<close>

theorem otp_store_error_sends_no_response:
  "response (verify_otp_handler
      (stub (all_ok\<lparr>on_verifyOtp := Thrown (Error ''SQLITE_CANTOPEN: unable to open database file'')\<rparr>))
      Map.empty 0) = None
   \<and> rejected (verify_otp_handler
      (stub (all_ok\<lparr>on_verifyOtp := Thrown (Error ''SQLITE_CANTOPEN: unable to open database file'')\<rparr>))
      Map.empty 0) = Some (Error ''SQLITE_CANTOPEN: unable to open database file'')
   \<and> response (verify_otp_handler
      (stub (all_ok\<lparr>on_getDb := Thrown (Error ''SQLITE_CANTOPEN: unable to open database file'')\<rparr>))
      Map.empty 0) = None
   \<and> rejected (verify_otp_handler
      (stub (all_ok\<lparr>on_getDb := Thrown (Error ''SQLITE_CANTOPEN: unable to open database file'')\<rparr>))
      Map.empty 0) = Some (Error ''SQLITE_CANTOPEN: unable to open database file'')"
  by (simp add: verify_otp_handler_def add_member_def store_account_def reject_def
      stub_def all_ok_def alice_def)



text \<open>
  C9 (as the code has it). Replace the exceptions the collaborators throw by any others:
  every response of the two handlers stays the same, status and message included, except
  for the exception it may carry under \<^verbatim>\<open>error\<close>. A response of the registration handler
  carries one only when it is the 500 "Could not store account", and a response of the
  OTP request handler only when it is the 500 "Failed to send OTP"; every other response
  (missing email, invalid domain, schema failure, rejected OTP, failed mint, failed group
  admission) is the same whatever was thrown.
\<close>

theorem response_fixed_up_to_error_field:
  "response (verify_otp_handler (rethrow f d) req_body w) =
     map_option (map_error f) (response (verify_otp_handler d req_body w))
   \<and> response (send_otp_handler (rethrow f d) req_body w) =
     map_option (map_error f) (response (send_otp_handler d req_body w))
   \<and> (\<forall>r. response (verify_otp_handler d req_body w) = Some r \<longrightarrow>
          res_status (map_error f r) = res_status r
        \<and> message (res_json (map_error f r)) = message (res_json r)
        \<and> (error (res_json r) = None \<longrightarrow> map_error f r = r)
        \<and> (error (res_json r) \<noteq> None \<longrightarrow>
             res_status r = 500 \<and> message (res_json r) = ''Could not store account''))
   \<and> (\<forall>r. response (send_otp_handler d req_body w) = Some r \<longrightarrow>
          res_status (map_error f r) = res_status r
        \<and> message (res_json (map_error f r)) = message (res_json r)
        \<and> (error (res_json r) = None \<longrightarrow> map_error f r = r)
        \<and> (error (res_json r) \<noteq> None \<longrightarrow>
             res_status r = 500 \<and> message (res_json r) = ''Failed to send OTP''))"
  using verify_otp_handler_error [of d req_body w] send_otp_handler_error [of d req_body w]
  by (simp add: verify_otp_handler_rethrow send_otp_handler_rethrow map_error_def)

theorem response_fixed_up_to_error_field_witness:
  "response (verify_otp_handler
      (rethrow (\<lambda>_. Error ''insufficient funds for gas'')
         (stub (all_ok\<lparr>on_mintHat := Thrown (Error ''nonce too low'')\<rparr>))) Map.empty 0) =
     Some \<lparr>res_status = 500, res_json = msg ''Failed to mint hat''\<rparr>
   \<and> response (verify_otp_handler
      (stub (all_ok\<lparr>on_mintHat := Thrown (Error ''nonce too low'')\<rparr>)) Map.empty 0) =
     Some \<lparr>res_status = 500, res_json = msg ''Failed to mint hat''\<rparr>"
proof -
  let ?d = "stub (all_ok\<lparr>on_mintHat := Thrown (Error ''nonce too low'')\<rparr>)"
  let ?f = "\<lambda>_::exn. Error ''insufficient funds for gas''"
  have r: "response (verify_otp_handler ?d Map.empty 0) =
             Some \<lparr>res_status = 500, res_json = msg ''Failed to mint hat''\<rparr>"
    by (simp add: verify_otp_handler_def respond_def stub_def all_ok_def)
  from response_fixed_up_to_error_field [of ?f ?d Map.empty 0, THEN conjunct1]
  have "response (verify_otp_handler (rethrow ?f ?d) Map.empty 0) =
          map_option (map_error ?f) (response (verify_otp_handler ?d Map.empty 0))" .
  with r show ?thesis by (simp add: map_error_def msg_def)
qed

text \<open>
  C9, the claim as stated fails: two runs of the OTP request that fail at the same step,
  the sending of the OTP, with different exceptions are answered with different bodies,
  each holding the exception that was thrown.
\<close>

theorem send_failure_echoes_exception:
  "res_json (the (response (send_otp_handler
       (stub (all_ok\<lparr>on_sendOtp := Thrown (Error ''connect ECONNREFUSED 127.0.0.1:587'')\<rparr>))
       [''email'' \<mapsto> JStr ''alice@pse.dev''] 0))) \<noteq>
   res_json (the (response (send_otp_handler
       (stub (all_ok\<lparr>on_sendOtp := Thrown (Error ''Invalid login: 535 Authentication failed'')\<rparr>))
       [''email'' \<mapsto> JStr ''alice@pse.dev''] 0)))
   \<and> error (res_json (the (response (send_otp_handler
       (stub (all_ok\<lparr>on_sendOtp := Thrown (Error ''connect ECONNREFUSED 127.0.0.1:587'')\<rparr>))
       [''email'' \<mapsto> JStr ''alice@pse.dev''] 0)))) =
     Some (Error ''connect ECONNREFUSED 127.0.0.1:587'')"
  by (simp add: send_otp_handler_def field_def respond_def msg_error_def stub_def all_ok_def
      suffix_def)

section \<open>The OTP request handler\<close>

text \<open>
  C6. For every email (a string) that does not end in "@pse.dev" the handler answers 400,
  with "Email is required" for the empty string and "Invalid email domain" otherwise,
  before anything else happens: \<open>sendOtp\<close>, which issues and sends the OTP, is not called,
  no collaborator is, and the world (the OTP store in it) is as it was.
\<close>

theorem invalid_domain_rejected:
  assumes "field req_body ''email'' = JStr addr" and "\<not> suffix ''@pse.dev'' addr"
  shows "send_otp_handler d req_body w =
           \<lparr>response = Some \<lparr>res_status = 400,
               res_json = msg (if addr = [] then ''Email is required''
                               else ''Invalid email domain'')\<rparr>,
            rejected = None, world = w, trace = []\<rparr>"
  using assms by (simp add: send_otp_handler_def respond_def)

theorem invalid_domain_rejected_witness:
  "send_otp_handler (stub all_ok) [''email'' \<mapsto> JStr ''mallory@evil.example''] 0 =
     \<lparr>response = Some \<lparr>res_status = 400, res_json = msg ''Invalid email domain''\<rparr>,
      rejected = None, world = 0, trace = []\<rparr>"
proof -
  have h1: "field [''email'' \<mapsto> JStr ''mallory@evil.example''] ''email'' =
              JStr ''mallory@evil.example''"
    by (simp add: field_def)
  have h2: "\<not> suffix ''@pse.dev'' ''mallory@evil.example''"
    by (simp add: suffix_to_prefix)
  from invalid_domain_rejected [OF h1 h2, of "stub all_ok" 0] show ?thesis by simp
qed

text \<open>
  C10. The handler calls \<open>sendOtp\<close> for an address exactly when the \<^verbatim>\<open>email\<close> of the body
  is a string with the suffix "@pse.dev", and then with that string: nothing else about the
  string is checked. Every local part passes, the empty one included, so the bare string
  "@pse.dev" is accepted.
\<close>

theorem domain_check_is_suffix_test:
  "(CallSendOtp addr \<in> set (trace (send_otp_handler d req_body w))) =
     (field req_body ''email'' = JStr addr \<and> suffix ''@pse.dev'' addr)
   \<and> trace (send_otp_handler d [''email'' \<mapsto> JStr (local @ ''@pse.dev'')] w) =
       [CallSendOtp (local @ ''@pse.dev'')]
   \<and> trace (send_otp_handler d [''email'' \<mapsto> JStr ''@pse.dev''] w) =
       [CallSendOtp ''@pse.dev'']"
proof -
  have tr: "trace (send_otp_handler d b w) =
              (case field b ''email'' of
                 JStr a \<Rightarrow> if suffix ''@pse.dev'' a then [CallSendOtp a] else []
               | _ \<Rightarrow> [])" for b
    by (simp add: send_otp_handler_def respond_def reject_def Let_def
        split: jsval.splits prod.splits outcome.splits)
  have loc: "suffix ''@pse.dev'' (local @ ''@pse.dev'')"
    by (rule suffixI) (rule refl)
  have bare: "suffix ''@pse.dev'' ''@pse.dev''"
    by (rule suffix_order.refl)
  have "(CallSendOtp addr \<in> set (trace (send_otp_handler d req_body w))) =
          (field req_body ''email'' = JStr addr \<and> suffix ''@pse.dev'' addr)"
    by (auto simp: tr split: jsval.splits)
  moreover have "trace (send_otp_handler d [''email'' \<mapsto> JStr (local @ ''@pse.dev'')] w) =
                   [CallSendOtp (local @ ''@pse.dev'')]"
    using loc by (simp add: tr field_def)
  moreover have "trace (send_otp_handler d [''email'' \<mapsto> JStr ''@pse.dev''] w) =
                   [CallSendOtp ''@pse.dev'']"
    using bare by (simp add: tr field_def)
  ultimately show ?thesis by blast
qed

theorem domain_check_is_suffix_test_witness:
  "CallSendOtp ''@pse.dev'' \<in>
     set (trace (send_otp_handler (stub all_ok) [''email'' \<mapsto> JStr ''@pse.dev''] 0))
   \<and> CallSendOtp ''bob@pse.dev.example'' \<notin>
     set (trace (send_otp_handler (stub all_ok) [''email'' \<mapsto> JStr ''bob@pse.dev.example''] 0))"
  using domain_check_is_suffix_test
      [of "''@pse.dev''" "stub all_ok" "[''email'' \<mapsto> JStr ''@pse.dev'']" 0 "[]"]
    domain_check_is_suffix_test
      [of "''bob@pse.dev.example''" "stub all_ok"
          "[''email'' \<mapsto> JStr ''bob@pse.dev.example'']" 0 "[]"]
  by (simp add: field_def suffix_to_prefix)

section \<open>The OTP store: single use\<close>

text \<open>
  C4. Once \<open>verify(E, code)\<close> has returned true, which marked the record consumed, every
  later \<open>verify(E, code)\<close> returns false, at whatever time it is made and whatever other
  \<open>verify\<close> calls (for any email, with any code) came in between: over any sequence of
  calls, \<open>verify(E, code)\<close> returns true at most once.
\<close>

theorem verify_true_at_most_once:
  assumes "verify s now E c = (True, s')"
  shows "fst (verify (verify_all s' cs) later E c) = False"
proof -
  from assms obtain r where "s' E = Some r" "consumed r"
    using verify_true_consumes by blast
  then obtain r' where "verify_all s' cs E = Some r'" "consumed r'"
    using verify_all_keeps_consumed by blast
  then show ?thesis by (rule verify_consumed_false)
qed

theorem verify_true_at_most_once_witness:
  "fst (verify (issue 300 Map.empty 1000 ''alice@pse.dev'' ''4821'') 1100 ''alice@pse.dev'' ''4821'')
   \<and> fst (verify
       (verify_all
          (snd (verify (issue 300 Map.empty 1000 ''alice@pse.dev'' ''4821'') 1100
                  ''alice@pse.dev'' ''4821''))
          [(1110, ''alice@pse.dev'', ''0000''), (1120, ''bob@pse.dev'', ''4821'')])
       1200 ''alice@pse.dev'' ''4821'') = False"
proof -
  let ?s = "issue 300 Map.empty 1000 ''alice@pse.dev'' ''4821''"
  have t: "fst (verify ?s 1100 ''alice@pse.dev'' ''4821'')"
    by (simp add: verify_def issue_def)
  then have h1: "verify ?s 1100 ''alice@pse.dev'' ''4821'' =
                   (True, snd (verify ?s 1100 ''alice@pse.dev'' ''4821''))"
    by (simp add: prod_eq_iff)
  from verify_true_at_most_once
    [OF h1, of "[(1110, ''alice@pse.dev'', ''0000''), (1120, ''bob@pse.dev'', ''4821'')]" 1200] t
  show ?thesis by blast
qed

section \<open>The OTP store: failing closed\<close>

text \<open>
  C5. \<open>verify(email, code)\<close> returns false, and leaves the store as it is, when there is no
  record for the email, when the stored code differs from the submitted one, when the time
  is past \<open>expiresAt\<close>, and when the record is already consumed; otherwise it returns true
  and the record is marked consumed. It is a total function: it returns in every case.
\<close>

theorem verify_fails_closed:
  "(s e = None \<longrightarrow> verify s now e c = (False, s))
   \<and> (\<forall>r. s e = Some r \<longrightarrow>
        (otp_code r \<noteq> c \<longrightarrow> verify s now e c = (False, s))
      \<and> (now > expiresAt r \<longrightarrow> verify s now e c = (False, s))
      \<and> (consumed r \<longrightarrow> verify s now e c = (False, s))
      \<and> (otp_code r = c \<and> now \<le> expiresAt r \<and> \<not> consumed r \<longrightarrow>
           verify s now e c = (True, s(e \<mapsto> r\<lparr>consumed := True\<rparr>))))"
  by (auto simp: verify_def)

theorem verify_fails_closed_witness:
  "verify Map.empty 1100 ''alice@pse.dev'' ''4821'' = (False, Map.empty)
   \<and> fst (verify (issue 300 Map.empty 1000 ''alice@pse.dev'' ''4821'') 1100
            ''alice@pse.dev'' ''0000'') = False
   \<and> fst (verify (issue 300 Map.empty 1000 ''alice@pse.dev'' ''4821'') 1301
            ''alice@pse.dev'' ''4821'') = False
   \<and> fst (verify (issue 300 Map.empty 1000 ''alice@pse.dev'' ''4821'') 1300
            ''alice@pse.dev'' ''4821'') = True"
proof -
  let ?r = "\<lparr>otp_email = ''alice@pse.dev'', otp_code = ''4821'', issuedAt = 1000,
             expiresAt = 1300, consumed = False\<rparr>"
  let ?s = "issue 300 Map.empty 1000 ''alice@pse.dev'' ''4821''"
  have rec: "?s ''alice@pse.dev'' = Some ?r"
    by (simp add: issue_def)
  have a: "verify Map.empty 1100 ''alice@pse.dev'' ''4821'' = (False, Map.empty)"
    using verify_fails_closed [of Map.empty "''alice@pse.dev''" 1100 "''4821''"] by simp
  have b: "verify ?s 1100 ''alice@pse.dev'' ''0000'' = (False, ?s)"
    using verify_fails_closed [of ?s "''alice@pse.dev''" 1100 "''0000''"] rec by simp
  have c: "verify ?s 1301 ''alice@pse.dev'' ''4821'' = (False, ?s)"
    using verify_fails_closed [of ?s "''alice@pse.dev''" 1301 "''4821''"] rec by simp
  have d: "verify ?s 1300 ''alice@pse.dev'' ''4821'' =
             (True, ?s(''alice@pse.dev'' \<mapsto> ?r\<lparr>consumed := True\<rparr>))"
    using verify_fails_closed [of ?s "''alice@pse.dev''" 1300 "''4821''"] rec by simp
  from a b c d show ?thesis by simp
qed

end
